theory Spec2Isabelle
  imports Main "HOL-Library.Word" "HOL-Library.Signed_Division"
begin

section \<open>Data model of \<open>src/go/main.go\<close>\<close>

text \<open>
  Go's \<open>int64\<close>, and \<open>int\<close> on the 64-bit targets the server is built for, are 64-bit
  two's-complement words: \<open>+\<close> wraps, comparisons are the signed ones (\<open><s\<close>, \<open>\<le>s\<close>).
\<close>

type_synonym int64 = "64 word"

text \<open>
  The error values of the source (\<open>ErrInvalidItemType\<close> ...), \<open>sql.ErrNoRows\<close>, one value
  \<open>ErrStore\<close> for every other error a database call returns, and \<open>Panic\<close> for a Go
  run-time panic (index out of range, nil dereference, \<open>rand.Int63n\<close> on a non-positive
  argument).
\<close>

datatype error =
    ErrInvalidItemType
  | ErrInvalidToken
  | ErrUserNotFound
  | ErrUserDeviceNotFound
  | ErrItemNotFound
  | ErrLoginBonusRewardNotFound
  | ErrNoRows
  | ErrStore
  | Panic

subsection \<open>Entities\<close>

text \<open>
  One record per Go struct, with the struct's field names prefixed where two structs
  share a name. Columns that none of the embedded functions reads or writes
  (\<open>registered_at\<close>, \<open>description\<close>, ...) are left out.
\<close>

record User =
  User_ID :: int64
  IsuCoin :: int64

record UserDevice =
  UserDevice_UserID :: int64
  PlatformID :: string

record UserCard =
  UserCard_ID :: int64
  UserCard_UserID :: int64
  CardID :: int64
  UserCard_AmountPerSec :: int64
  Level :: int64
  TotalExp :: int64
  UserCard_CreatedAt :: int64
  UserCard_UpdatedAt :: int64

record UserItem =
  UserItem_ID :: int64
  UserItem_UserID :: int64
  UserItem_ItemType :: int64
  UserItem_ItemID :: int64
  UserItem_Amount :: int64
  UserItem_CreatedAt :: int64
  UserItem_UpdatedAt :: int64

record UserLoginBonus =
  UserLoginBonus_ID :: int64
  UserLoginBonus_UserID :: int64
  LoginBonusID :: int64
  LastRewardSequence :: int64
  LoopCount :: int64
  UserLoginBonus_CreatedAt :: int64
  UserLoginBonus_UpdatedAt :: int64

record UserPresent =
  UserPresent_ID :: int64
  UserPresent_UserID :: int64
  SentAt :: int64
  ItemType :: int64
  ItemID :: int64
  Amount :: int64
  PresentMessage :: string
  UserPresent_CreatedAt :: int64
  UserPresent_UpdatedAt :: int64
  UserPresent_DeletedAt :: "int64 option"

record UserOneTimeToken =
  UserOneTimeToken_ID :: int64
  UserOneTimeToken_UserID :: int64
  Token :: string
  UserOneTimeToken_TokenType :: int64
  UserOneTimeToken_ExpiredAt :: int64
  UserOneTimeToken_CreatedAt :: int64
  UserOneTimeToken_UpdatedAt :: int64
  UserOneTimeToken_DeletedAt :: "int64 option"

record TokenInfo =
  TokenInfo_UserID :: int64
  TokenType :: int64
  ExpiredAt :: int64
  TokenInfo_CreatedAt :: int64

subsection \<open>Master entities\<close>

record GachaMaster =
  GachaMaster_ID :: int64
  Name :: string
  GachaMaster_StartAt :: int64
  GachaMaster_EndAt :: int64
  DisplayOrder :: int64

record GachaItemMaster =
  GachaItemMaster_ID :: int64
  GachaID :: int64
  GachaItemMaster_ItemType :: int64
  GachaItemMaster_ItemID :: int64
  GachaItemMaster_Amount :: int64
  Weight :: int64

text \<open>\<open>AmountPerSec\<close> is a \<open>*int\<close> in the source: \<open>None\<close> is the nil pointer of a NULL column.\<close>

record ItemMaster =
  ItemMaster_ID :: int64
  ItemMaster_ItemType :: int64
  AmountPerSec :: "int64 option"

record LoginBonusMaster =
  LoginBonusMaster_ID :: int64
  LoginBonusMaster_StartAt :: int64
  LoginBonusMaster_EndAt :: int64
  ColumnCount :: int64
  Looped :: bool

record LoginBonusRewardMaster =
  LoginBonusRewardMaster_LoginBonusID :: int64
  RewardSequence :: int64
  LoginBonusRewardMaster_ItemType :: int64
  LoginBonusRewardMaster_ItemID :: int64
  LoginBonusRewardMaster_Amount :: int64

subsection \<open>Stores, caches and the handler\<close>

text \<open>
  A database server holds its tables as lists of rows: \<open>SELECT\<close> filters, \<open>UPDATE\<close> maps,
  \<open>INSERT\<close> appends. The schema is not part of the source, so no key constraint is modelled.
\<close>

record database =
  users :: "User list"
  user_devices :: "UserDevice list"
  user_cards :: "UserCard list"
  user_items :: "UserItem list"
  user_login_bonuses :: "UserLoginBonus list"
  user_presents :: "UserPresent list"
  user_one_time_tokens :: "UserOneTimeToken list"
  gacha_masters :: "GachaMaster list"
  gacha_item_masters :: "GachaItemMaster list"
  item_masters :: "ItemMaster list"
  login_bonus_masters :: "LoginBonusMaster list"
  login_bonus_reward_masters :: "LoginBonusRewardMaster list"

text \<open>
  \<open>MasterDataCache\<close>. The key of \<open>loginBonusRewards\<close> is the string \<open>"%d_%d"\<close> of the
  bonus id and the sequence in the source, which is the pair of the two numbers.
\<close>

record MasterDataCache =
  gachaItems :: "int64 \<rightharpoonup> GachaItemMaster list"
  gachaWeightSums :: "int64 \<rightharpoonup> int64"
  loginBonusRewards :: "int64 \<times> int64 \<rightharpoonup> LoginBonusRewardMaster"
  itemMasters :: "int64 \<rightharpoonup> ItemMaster"

text \<open>
  A \<open>*sqlx.DB\<close> is a handle on one database server: the model names the server by a
  number, so that two handles on the same server alias. \<open>Handler\<close> carries the handles;
  the mutable parts the handler points to (\<open>Cache\<close>, \<open>TokenCache\<close>) live in the state.
\<close>

record Handler =
  DBs :: "nat list"
  DB :: nat

text \<open>
  The state every operation threads: the servers, the working copy \<open>txData\<close> of the open
  transaction (written back to its server by \<open>Commit\<close> only), the two caches, and the
  environment the code draws from: \<open>nextID\<close> is the next value of \<open>snowflakeNode.Generate()\<close>,
  \<open>uuids\<close> holds the coming results of \<open>uuid.NewRandom\<close> (exhausted: it fails),
  \<open>faults\<close> says for each coming database call whether it fails (an exhausted list means
  no further failure), \<open>rands\<close> is the sequence of results of \<open>rand.Int63n\<close> and
  \<open>randPos\<close> the number of them already drawn.
\<close>

record state =
  servers :: "nat \<Rightarrow> database"
  txData :: database
  Cache :: MasterDataCache
  TokenCache :: "string \<rightharpoonup> TokenInfo"
  nextID :: int64
  uuids :: "string list"
  faults :: "bool list"
  rands :: "nat \<Rightarrow> int64"
  randPos :: nat

section \<open>ShardRouter: \<open>getDBForUserID\<close>\<close>

text \<open>
  \<open>index := int(userID>>23) % len(h.DBs)\<close>: \<open>>>\<close> on a signed integer is the arithmetic
  shift, \<open>%\<close> truncates towards zero (\<open>smod\<close>). Indexing \<open>h.DBs\<close> out of range panics.
\<close>

definition shardIndex :: "int64 \<Rightarrow> nat \<Rightarrow> int" where
  "shardIndex userID n = sint (signed_drop_bit 23 userID) smod int n"

definition getDBForUserID :: "Handler \<Rightarrow> int64 \<Rightarrow> error + nat" where
  "getDBForUserID h userID =
     (if length (DBs h) = 0 then Inr (DB h)
      else let index = shardIndex userID (length (DBs h)) in
        if 0 \<le> index \<and> index < int (length (DBs h)) then Inr (DBs h ! nat index)
        else Inl Panic)"

section \<open>LotteryEngine: the draw loop of \<open>drawGacha\<close>\<close>

text \<open>\<open>rand.Int63n(n)\<close> panics for \<open>n \<le> 0\<close>; otherwise it returns the next sample.\<close>

definition Int63n :: "int64 \<Rightarrow> state \<Rightarrow> (error + int64) \<times> state" where
  "Int63n n s =
     (if n \<le>s 0 then (Inl Panic, s)
      else (Inr (rands s (randPos s)), s\<lparr>randPos := Suc (randPos s)\<rparr>))"

text \<open>
  The inner loop: \<open>boundary += v.Weight; if random < int64(boundary) { append; break }\<close>.
  \<open>None\<close> is the loop running off the end of the list without appending.
\<close>

fun pick :: "GachaItemMaster list \<Rightarrow> int64 \<Rightarrow> int64 \<Rightarrow> GachaItemMaster option" where
  "pick [] boundary random = None"
| "pick (v # vs) boundary random =
     (let boundary' = boundary + Weight v
      in if random <s boundary' then Some v else pick vs boundary' random)"

text \<open>The outer loop \<open>for i := 0; i < int(gachaCount); i++\<close>, with \<open>result\<close> as accumulator.\<close>

fun drawLoop ::
  "nat \<Rightarrow> GachaItemMaster list \<Rightarrow> int64 \<Rightarrow> GachaItemMaster list \<Rightarrow> state
    \<Rightarrow> (error + GachaItemMaster list) \<times> state" where
  "drawLoop 0 gachaItemList sumW result s = (Inr result, s)"
| "drawLoop (Suc n) gachaItemList sumW result s =
     (case Int63n sumW s of
        (Inl e, s1) \<Rightarrow> (Inl e, s1)
      | (Inr random, s1) \<Rightarrow>
          (case pick gachaItemList 0 random of
             None \<Rightarrow> drawLoop n gachaItemList sumW result s1
           | Some v \<Rightarrow> drawLoop n gachaItemList sumW (result @ [v]) s1))"

text \<open>The weight sum as \<open>SetGachaItems\<close> and \<open>drawGacha\<close> compute it.\<close>

definition sumWeights :: "GachaItemMaster list \<Rightarrow> int64" where
  "sumWeights items = foldl (\<lambda>acc item. acc + Weight item) 0 items"

text \<open>The running boundary once the item at position \<open>i\<close> of the catalog has been added.\<close>

definition boundaryAfter :: "GachaItemMaster list \<Rightarrow> nat \<Rightarrow> int64" where
  "boundaryAfter items i = sumWeights (take (Suc i) items)"



section \<open>Database calls\<close>

text \<open>Every database call consumes one entry of \<open>faults\<close>; \<open>True\<close> makes the call fail.\<close>

definition nextFault :: "state \<Rightarrow> bool \<times> state" where
  "nextFault s = (faults s \<noteq> [] \<and> hd (faults s), s\<lparr>faults := tl (faults s)\<rparr>)"

text \<open>\<open>db.Exec\<close>, \<open>db.Select\<close> and \<open>db.Get\<close> on a handle, outside a transaction.\<close>

definition dbExec :: "nat \<Rightarrow> (database \<Rightarrow> database) \<Rightarrow> state \<Rightarrow> error option \<times> state" where
  "dbExec db stmt s =
     (case nextFault s of
        (True, s1) \<Rightarrow> (Some ErrStore, s1)
      | (False, s1) \<Rightarrow> (None, s1\<lparr>servers := (servers s1)(db := stmt (servers s1 db))\<rparr>))"

definition dbSelect :: "nat \<Rightarrow> (database \<Rightarrow> 'a list) \<Rightarrow> state \<Rightarrow> (error + 'a list) \<times> state" where
  "dbSelect db query s =
     (case nextFault s of
        (True, s1) \<Rightarrow> (Inl ErrStore, s1)
      | (False, s1) \<Rightarrow> (Inr (query (servers s1 db)), s1))"

definition dbGet :: "nat \<Rightarrow> (database \<Rightarrow> 'a list) \<Rightarrow> state \<Rightarrow> (error + 'a) \<times> state" where
  "dbGet db query s =
     (case nextFault s of
        (True, s1) \<Rightarrow> (Inl ErrStore, s1)
      | (False, s1) \<Rightarrow>
          (case query (servers s1 db) of
             [] \<Rightarrow> (Inl ErrNoRows, s1)
           | row # _ \<Rightarrow> (Inr row, s1)))"

text \<open>
  \<open>db.Beginx\<close> opens a transaction on the server's data, \<open>tx.Exec\<close>/\<open>tx.NamedExec\<close> and
  \<open>tx.Select\<close> work on the copy, \<open>tx.Commit\<close> writes it back. A handler that returns
  without \<open>Commit\<close> runs the deferred \<open>tx.Rollback\<close>: the copy is dropped.
\<close>

definition Beginx :: "nat \<Rightarrow> state \<Rightarrow> error option \<times> state" where
  "Beginx db s =
     (case nextFault s of
        (True, s1) \<Rightarrow> (Some ErrStore, s1)
      | (False, s1) \<Rightarrow> (None, s1\<lparr>txData := servers s1 db\<rparr>))"

definition txExec :: "(database \<Rightarrow> database) \<Rightarrow> state \<Rightarrow> error option \<times> state" where
  "txExec stmt s =
     (case nextFault s of
        (True, s1) \<Rightarrow> (Some ErrStore, s1)
      | (False, s1) \<Rightarrow> (None, s1\<lparr>txData := stmt (txData s1)\<rparr>))"

definition txSelect :: "(database \<Rightarrow> 'a list) \<Rightarrow> state \<Rightarrow> (error + 'a list) \<times> state" where
  "txSelect query s =
     (case nextFault s of
        (True, s1) \<Rightarrow> (Inl ErrStore, s1)
      | (False, s1) \<Rightarrow> (Inr (query (txData s1)), s1))"

definition txGet :: "(database \<Rightarrow> 'a list) \<Rightarrow> state \<Rightarrow> (error + 'a) \<times> state" where
  "txGet query s =
     (case nextFault s of
        (True, s1) \<Rightarrow> (Inl ErrStore, s1)
      | (False, s1) \<Rightarrow>
          (case query (txData s1) of
             [] \<Rightarrow> (Inl ErrNoRows, s1)
           | row # _ \<Rightarrow> (Inr row, s1)))"

definition Commit :: "nat \<Rightarrow> state \<Rightarrow> error option \<times> state" where
  "Commit db s =
     (case nextFault s of
        (True, s1) \<Rightarrow> (Some ErrStore, s1)
      | (False, s1) \<Rightarrow> (None, s1\<lparr>servers := (servers s1)(db := txData s1)\<rparr>))"

text \<open>\<open>generateID\<close>: the next snowflake id; its error result is always nil in the source.\<close>

definition generateID :: "state \<Rightarrow> int64 \<times> state" where
  "generateID s = (nextID s, s\<lparr>nextID := nextID s + 1\<rparr>)"

section \<open>MasterDataCache and TokenCache\<close>

definition GetItemMaster :: "MasterDataCache \<Rightarrow> int64 \<Rightarrow> ItemMaster option" where
  "GetItemMaster c itemID = itemMasters c itemID"

definition SetItemMaster :: "MasterDataCache \<Rightarrow> ItemMaster \<Rightarrow> MasterDataCache" where
  "SetItemMaster c item = c\<lparr>itemMasters := (itemMasters c)(ItemMaster_ID item \<mapsto> item)\<rparr>"

definition GetGachaItems :: "MasterDataCache \<Rightarrow> int64 \<Rightarrow> (GachaItemMaster list \<times> int64) option" where
  "GetGachaItems c gachaID =
     (case gachaItems c gachaID of
        None \<Rightarrow> None
      | Some items \<Rightarrow>
          (case gachaWeightSums c gachaID of
             None \<Rightarrow> None
           | Some weightSum \<Rightarrow> Some (items, weightSum)))"

definition SetGachaItems :: "MasterDataCache \<Rightarrow> int64 \<Rightarrow> GachaItemMaster list \<Rightarrow> MasterDataCache" where
  "SetGachaItems c gachaID items =
     c\<lparr>gachaItems := (gachaItems c)(gachaID \<mapsto> items),
       gachaWeightSums := (gachaWeightSums c)(gachaID \<mapsto> sumWeights items)\<rparr>"

definition GetLoginBonusReward ::
  "MasterDataCache \<Rightarrow> int64 \<Rightarrow> int64 \<Rightarrow> LoginBonusRewardMaster option" where
  "GetLoginBonusReward c loginBonusID sequence = loginBonusRewards c (loginBonusID, sequence)"

definition SetLoginBonusReward :: "MasterDataCache \<Rightarrow> LoginBonusRewardMaster \<Rightarrow> MasterDataCache" where
  "SetLoginBonusReward c reward =
     c\<lparr>loginBonusRewards := (loginBonusRewards c)
          ((LoginBonusRewardMaster_LoginBonusID reward, RewardSequence reward) \<mapsto> reward)\<rparr>"

definition SetToken ::
  "(string \<rightharpoonup> TokenInfo) \<Rightarrow> string \<Rightarrow> int64 \<Rightarrow> int64 \<Rightarrow> int64 \<Rightarrow> int64 \<Rightarrow> (string \<rightharpoonup> TokenInfo)" where
  "SetToken tc token userID tokenType expiredAt createdAt =
     tc(token \<mapsto> \<lparr>TokenInfo_UserID = userID, TokenType = tokenType,
                   ExpiredAt = expiredAt, TokenInfo_CreatedAt = createdAt\<rparr>)"

definition GetToken :: "(string \<rightharpoonup> TokenInfo) \<Rightarrow> string \<Rightarrow> TokenInfo option" where
  "GetToken tc token = tc token"

definition DeleteToken :: "(string \<rightharpoonup> TokenInfo) \<Rightarrow> string \<Rightarrow> (string \<rightharpoonup> TokenInfo)" where
  "DeleteToken tc token = tc(token := None)"

section \<open>RewardGrantEngine: \<open>obtainItemsBatch\<close>\<close>

text \<open>
  \<open>materialItems\<close> is a Go map from item id to summed amount. It is kept as a list of
  pairs with distinct keys, in the order the keys were first seen; the loops that range
  over the map take the entries in that order (Go leaves the order open).
\<close>

fun addMaterial :: "(int64 \<times> int64) list \<Rightarrow> int64 \<Rightarrow> int64 \<Rightarrow> (int64 \<times> int64) list" where
  "addMaterial [] itemID amount = [(itemID, amount)]"
| "addMaterial ((k, v) # m) itemID amount =
     (if k = itemID then (k, v + amount) # m else (k, v) # addMaterial m itemID amount)"

text \<open>The grouping loop. Its \<open>switch\<close> has no \<open>default\<close>: any other item type falls through.\<close>

fun groupPresents ::
  "UserPresent list \<Rightarrow> int64 \<Rightarrow> UserPresent list \<Rightarrow> (int64 \<times> int64) list
    \<Rightarrow> int64 \<times> UserPresent list \<times> (int64 \<times> int64) list" where
  "groupPresents [] coinTotal cardItems materialItems = (coinTotal, cardItems, materialItems)"
| "groupPresents (present # rest) coinTotal cardItems materialItems =
     (if ItemType present = 1
      then groupPresents rest (coinTotal + Amount present) cardItems materialItems
      else if ItemType present = 2
      then groupPresents rest coinTotal (cardItems @ [present]) materialItems
      else if ItemType present = 3 \<or> ItemType present = 4
      then groupPresents rest coinTotal cardItems
             (addMaterial materialItems (ItemID present) (Amount present))
      else groupPresents rest coinTotal cardItems materialItems)"

text \<open>\<open>UPDATE users SET isu_coin = isu_coin + ? WHERE id = ?\<close>, when \<open>coinTotal > 0\<close>.\<close>

definition addCoin :: "int64 \<Rightarrow> int64 \<Rightarrow> database \<Rightarrow> database" where
  "addCoin userID coinTotal d =
     d\<lparr>users := map (\<lambda>u. if User_ID u = userID then u\<lparr>IsuCoin := IsuCoin u + coinTotal\<rparr> else u)
                   (users d)\<rparr>"

definition obtainCoins :: "int64 \<Rightarrow> int64 \<Rightarrow> state \<Rightarrow> error option \<times> state" where
  "obtainCoins coinTotal userID s =
     (if 0 <s coinTotal then txExec (addCoin userID coinTotal) s else (None, s))"

text \<open>The cache pass over the card presents: \<open>masterMap\<close> and \<open>missingCardIDs\<close>.\<close>

fun cachedMasters ::
  "UserPresent list \<Rightarrow> MasterDataCache \<Rightarrow> (int64 \<rightharpoonup> ItemMaster) \<Rightarrow> int64 list
    \<Rightarrow> (int64 \<rightharpoonup> ItemMaster) \<times> int64 list" where
  "cachedMasters [] c masterMap missingCardIDs = (masterMap, missingCardIDs)"
| "cachedMasters (item # rest) c masterMap missingCardIDs =
     (case GetItemMaster c (ItemID item) of
        Some cachedMaster \<Rightarrow>
          cachedMasters rest c (masterMap(ItemID item \<mapsto> cachedMaster)) missingCardIDs
      | None \<Rightarrow> cachedMasters rest c masterMap (missingCardIDs @ [ItemID item]))"

text \<open>The rows fetched for the missing ids go to the cache and to \<open>masterMap\<close>.\<close>

fun storeMasters ::
  "ItemMaster list \<Rightarrow> MasterDataCache \<Rightarrow> (int64 \<rightharpoonup> ItemMaster)
    \<Rightarrow> MasterDataCache \<times> (int64 \<rightharpoonup> ItemMaster)" where
  "storeMasters [] c masterMap = (c, masterMap)"
| "storeMasters (master # rest) c masterMap =
     storeMasters rest (SetItemMaster c master) (masterMap(ItemMaster_ID master \<mapsto> master))"

definition fetchMissingMasters ::
  "int64 list \<Rightarrow> (int64 \<rightharpoonup> ItemMaster) \<Rightarrow> state \<Rightarrow> (error + (int64 \<rightharpoonup> ItemMaster)) \<times> state" where
  "fetchMissingMasters missingCardIDs masterMap s =
     (if missingCardIDs = [] then (Inr masterMap, s)
      else case txSelect (\<lambda>d. filter (\<lambda>m. ItemMaster_ID m \<in> set missingCardIDs
                                          \<and> ItemMaster_ItemType m = 2) (item_masters d)) s of
             (Inl e, s1) \<Rightarrow> (Inl e, s1)
           | (Inr masters, s1) \<Rightarrow>
               (case storeMasters masters (Cache s1) masterMap of
                  (c, masterMap1) \<Rightarrow> (Inr masterMap1, s1\<lparr>Cache := c\<rparr>)))"

text \<open>
  The inner loop \<open>for i := 0; i < item.Amount; i++\<close>, run \<open>n\<close> times. \<open>*master.AmountPerSec\<close>
  panics on a nil pointer.
\<close>

fun newCards ::
  "nat \<Rightarrow> ItemMaster \<Rightarrow> int64 \<Rightarrow> int64 \<Rightarrow> UserCard list \<Rightarrow> state
    \<Rightarrow> (error + UserCard list) \<times> state" where
  "newCards 0 master userID requestAt cardInserts s = (Inr cardInserts, s)"
| "newCards (Suc n) master userID requestAt cardInserts s =
     (case generateID s of
        (cID, s1) \<Rightarrow>
          (case AmountPerSec master of
             None \<Rightarrow> (Inl Panic, s1)
           | Some amountPerSec \<Rightarrow>
               newCards n master userID requestAt
                 (cardInserts @
                    [\<lparr>UserCard_ID = cID, UserCard_UserID = userID, CardID = ItemMaster_ID master,
                      UserCard_AmountPerSec = amountPerSec, Level = 1, TotalExp = 0,
                      UserCard_CreatedAt = requestAt, UserCard_UpdatedAt = requestAt\<rparr>])
                 s1))"

fun expandCards ::
  "UserPresent list \<Rightarrow> (int64 \<rightharpoonup> ItemMaster) \<Rightarrow> int64 \<Rightarrow> int64 \<Rightarrow> UserCard list \<Rightarrow> state
    \<Rightarrow> (error + UserCard list) \<times> state" where
  "expandCards [] masterMap userID requestAt cardInserts s = (Inr cardInserts, s)"
| "expandCards (item # rest) masterMap userID requestAt cardInserts s =
     (case masterMap (ItemID item) of
        None \<Rightarrow> (Inl ErrItemNotFound, s)
      | Some master \<Rightarrow>
          (case newCards (nat (sint (Amount item))) master userID requestAt cardInserts s of
             (Inl e, s1) \<Rightarrow> (Inl e, s1)
           | (Inr cardInserts1, s1) \<Rightarrow>
               expandCards rest masterMap userID requestAt cardInserts1 s1))"

definition insertCards :: "UserCard list \<Rightarrow> database \<Rightarrow> database" where
  "insertCards cardInserts d = d\<lparr>user_cards := user_cards d @ cardInserts\<rparr>"

definition obtainCards :: "UserPresent list \<Rightarrow> int64 \<Rightarrow> int64 \<Rightarrow> state \<Rightarrow> error option \<times> state" where
  "obtainCards cardItems userID requestAt s =
     (if cardItems = [] then (None, s)
      else case cachedMasters cardItems (Cache s) Map.empty [] of
        (masterMap, missingCardIDs) \<Rightarrow>
          (case fetchMissingMasters missingCardIDs masterMap s of
             (Inl e, s1) \<Rightarrow> (Some e, s1)
           | (Inr masterMap1, s1) \<Rightarrow>
               (case expandCards cardItems masterMap1 userID requestAt [] s1 of
                  (Inl e, s2) \<Rightarrow> (Some e, s2)
                | (Inr cardInserts, s2) \<Rightarrow>
                    if cardInserts = [] then (None, s2)
                    else txExec (insertCards cardInserts) s2)))"

text \<open>\<open>existingMap\<close> and \<open>masterMap\<close> of the material block: a later row replaces an earlier one.\<close>

definition existingMapOf :: "UserItem list \<Rightarrow> (int64 \<rightharpoonup> UserItem)" where
  "existingMapOf existingItems =
     foldl (\<lambda>m item. m(UserItem_ItemID item \<mapsto> item)) Map.empty existingItems"

definition masterMapOf :: "ItemMaster list \<Rightarrow> (int64 \<rightharpoonup> ItemMaster)" where
  "masterMapOf masters =
     foldl (\<lambda>m master. m(ItemMaster_ID master \<mapsto> master)) Map.empty masters"

text \<open>The loop over \<open>materialItems\<close> that fills \<open>updateItems\<close> and \<open>insertItems\<close>.\<close>

fun splitMaterials ::
  "(int64 \<times> int64) list \<Rightarrow> (int64 \<rightharpoonup> ItemMaster) \<Rightarrow> (int64 \<rightharpoonup> UserItem) \<Rightarrow> int64 \<Rightarrow> int64
    \<Rightarrow> UserItem list \<Rightarrow> UserItem list \<Rightarrow> state
    \<Rightarrow> (error + UserItem list \<times> UserItem list) \<times> state" where
  "splitMaterials [] masterMap existingMap userID requestAt updateItems insertItems s =
     (Inr (updateItems, insertItems), s)"
| "splitMaterials ((itemID, amount) # rest) masterMap existingMap userID requestAt
       updateItems insertItems s =
     (case masterMap itemID of
        None \<Rightarrow> (Inl ErrItemNotFound, s)
      | Some master \<Rightarrow>
          (case existingMap itemID of
             Some existingItem \<Rightarrow>
               splitMaterials rest masterMap existingMap userID requestAt
                 (updateItems @
                    [existingItem\<lparr>UserItem_Amount := UserItem_Amount existingItem + amount,
                                  UserItem_UpdatedAt := requestAt\<rparr>])
                 insertItems s
           | None \<Rightarrow>
               (case generateID s of
                  (uitemID, s1) \<Rightarrow>
                    splitMaterials rest masterMap existingMap userID requestAt updateItems
                      (insertItems @
                         [\<lparr>UserItem_ID = uitemID, UserItem_UserID = userID,
                           UserItem_ItemType = ItemMaster_ItemType master,
                           UserItem_ItemID = itemID, UserItem_Amount = amount,
                           UserItem_CreatedAt = requestAt, UserItem_UpdatedAt = requestAt\<rparr>])
                      s1)))"

text \<open>
  \<open>UPDATE user_items SET amount = CASE id WHEN .. END, updated_at = CASE id WHEN .. END
  WHERE id IN (ids)\<close>: a row whose id is among \<open>updateItems\<close> takes the values of the first
  entry with that id.
\<close>

definition updateUserItems :: "UserItem list \<Rightarrow> database \<Rightarrow> database" where
  "updateUserItems updateItems d =
     d\<lparr>user_items :=
         map (\<lambda>row. case find (\<lambda>item. UserItem_ID item = UserItem_ID row) updateItems of
                      None \<Rightarrow> row
                    | Some item \<Rightarrow> row\<lparr>UserItem_Amount := UserItem_Amount item,
                                         UserItem_UpdatedAt := UserItem_UpdatedAt item\<rparr>)
             (user_items d)\<rparr>"

definition insertUserItems :: "UserItem list \<Rightarrow> database \<Rightarrow> database" where
  "insertUserItems insertItems d = d\<lparr>user_items := user_items d @ insertItems\<rparr>"

definition obtainMaterials ::
  "(int64 \<times> int64) list \<Rightarrow> int64 \<Rightarrow> int64 \<Rightarrow> state \<Rightarrow> error option \<times> state" where
  "obtainMaterials materialItems userID requestAt s =
     (if materialItems = [] then (None, s)
      else let itemIDs = map fst materialItems in
        case txSelect (\<lambda>d. filter (\<lambda>i. UserItem_UserID i = userID
                                       \<and> UserItem_ItemID i \<in> set itemIDs) (user_items d)) s of
          (Inl e, s1) \<Rightarrow> (Some e, s1)
        | (Inr existingItems, s1) \<Rightarrow>
            (case txSelect (\<lambda>d. filter (\<lambda>m. ItemMaster_ID m \<in> set itemIDs
                                   \<and> (ItemMaster_ItemType m = 3 \<or> ItemMaster_ItemType m = 4))
                                 (item_masters d)) s1 of
               (Inl e, s2) \<Rightarrow> (Some e, s2)
             | (Inr masters, s2) \<Rightarrow>
                 (case splitMaterials materialItems (masterMapOf masters)
                         (existingMapOf existingItems) userID requestAt [] [] s2 of
                    (Inl e, s3) \<Rightarrow> (Some e, s3)
                  | (Inr (updateItems, insertItems), s3) \<Rightarrow>
                      (case (if updateItems = [] then (None, s3)
                             else txExec (updateUserItems updateItems) s3) of
                         (Some e, s4) \<Rightarrow> (Some e, s4)
                       | (None, s4) \<Rightarrow>
                           if insertItems = [] then (None, s4)
                           else txExec (insertUserItems insertItems) s4))))"

definition obtainItemsBatch ::
  "UserPresent list \<Rightarrow> int64 \<Rightarrow> int64 \<Rightarrow> state \<Rightarrow> error option \<times> state" where
  "obtainItemsBatch presents userID requestAt s =
     (case groupPresents presents 0 [] [] of
        (coinTotal, cardItems, materialItems) \<Rightarrow>
          (case obtainCoins coinTotal userID s of
             (Some e, s1) \<Rightarrow> (Some e, s1)
           | (None, s1) \<Rightarrow>
               (case obtainCards cardItems userID requestAt s1 of
                  (Some e, s2) \<Rightarrow> (Some e, s2)
                | (None, s2) \<Rightarrow> obtainMaterials materialItems userID requestAt s2)))"


section \<open>HTTP responses and requests\<close>

text \<open>
  \<open>successResponse\<close> carries the body, \<open>errorResponse\<close> the status code (the message is
  dropped). Path and body parsing happen before the modelled part of a handler: the
  handlers take the parsed values. A panic reaches echo's \<open>Recover\<close> middleware, which
  answers 500.
\<close>

datatype 'a response = successResponse 'a | errorResponse nat

record ReceivePresentRequest =
  ReceivePresentRequest_ViewerID :: string
  PresentIDs :: "int64 list"

record DrawGachaRequest =
  DrawGachaRequest_ViewerID :: string
  OneTimeToken :: string

record GachaData =
  Gacha :: GachaMaster
  GachaItem :: "GachaItemMaster list"

record ListGachaResponse =
  ListGachaResponse_OneTimeToken :: string
  Gachas :: "GachaData list"

section \<open>\<open>checkViewerID\<close>\<close>

definition checkViewerID :: "Handler \<Rightarrow> int64 \<Rightarrow> string \<Rightarrow> state \<Rightarrow> error option \<times> state" where
  "checkViewerID h userID viewerID s =
     (case getDBForUserID h userID of
        Inl e \<Rightarrow> (Some e, s)
      | Inr db \<Rightarrow>
          (case dbGet db (\<lambda>d. filter (\<lambda>device. UserDevice_UserID device = userID
                                           \<and> PlatformID device = viewerID)
                                 (user_devices d)) s of
             (Inl e, s1) \<Rightarrow> (Some (if e = ErrNoRows then ErrUserDeviceNotFound else e), s1)
           | (Inr device, s1) \<Rightarrow> (None, s1)))"

section \<open>TokenCache and store: \<open>checkOneTimeToken\<close>\<close>

text \<open>\<open>UPDATE user_one_time_tokens SET deleted_at=? WHERE token=?\<close>\<close>

definition deleteTokenRows :: "string \<Rightarrow> int64 \<Rightarrow> database \<Rightarrow> database" where
  "deleteTokenRows token requestAt d =
     d\<lparr>user_one_time_tokens :=
         map (\<lambda>tk. if Token tk = token
                    then tk\<lparr>UserOneTimeToken_DeletedAt := Some requestAt\<rparr> else tk)
             (user_one_time_tokens d)\<rparr>"

text \<open>
  \<open>SELECT * FROM user_one_time_tokens WHERE token=? AND token_type=? AND deleted_at IS NULL\<close>
\<close>

definition selectToken :: "string \<Rightarrow> int64 \<Rightarrow> database \<Rightarrow> UserOneTimeToken list" where
  "selectToken token tokenType d =
     filter (\<lambda>tk. Token tk = token \<and> UserOneTimeToken_TokenType tk = tokenType
                   \<and> UserOneTimeToken_DeletedAt tk = None)
            (user_one_time_tokens d)"

text \<open>
  In the cache branch the expired case ignores the result of \<open>Exec\<close>; every other
  \<open>Exec\<close> returns its error.
\<close>

definition checkOneTimeToken ::
  "Handler \<Rightarrow> int64 \<Rightarrow> string \<Rightarrow> int64 \<Rightarrow> int64 \<Rightarrow> state \<Rightarrow> error option \<times> state" where
  "checkOneTimeToken h userID token tokenType requestAt s =
     (case GetToken (TokenCache s) token of
        Some tokenInfo \<Rightarrow>
          if TokenType tokenInfo \<noteq> tokenType then (Some ErrInvalidToken, s)
          else if ExpiredAt tokenInfo <s requestAt then
            (let s1 = s\<lparr>TokenCache := DeleteToken (TokenCache s) token\<rparr> in
             case getDBForUserID h userID of
               Inl e \<Rightarrow> (Some e, s1)
             | Inr db \<Rightarrow>
                 (case dbExec db (deleteTokenRows token requestAt) s1 of
                    (_, s2) \<Rightarrow> (Some ErrInvalidToken, s2)))
          else
            (let s1 = s\<lparr>TokenCache := DeleteToken (TokenCache s) token\<rparr> in
             case getDBForUserID h userID of
               Inl e \<Rightarrow> (Some e, s1)
             | Inr db \<Rightarrow> dbExec db (deleteTokenRows token requestAt) s1)
      | None \<Rightarrow>
          (case getDBForUserID h userID of
             Inl e \<Rightarrow> (Some e, s)
           | Inr db \<Rightarrow>
               (case dbGet db (selectToken token tokenType) s of
                  (Inl e, s1) \<Rightarrow> (Some (if e = ErrNoRows then ErrInvalidToken else e), s1)
                | (Inr tk, s1) \<Rightarrow>
                    if UserOneTimeToken_ExpiredAt tk <s requestAt then
                      (case dbExec db (deleteTokenRows token requestAt) s1 of
                         (Some e, s2) \<Rightarrow> (Some e, s2)
                       | (None, s2) \<Rightarrow> (Some ErrInvalidToken, s2))
                    else dbExec db (deleteTokenRows token requestAt) s1)))"

section \<open>Token issuance: \<open>listGacha\<close>\<close>

definition generateUUID :: "state \<Rightarrow> (error + string) \<times> state" where
  "generateUUID s =
     (case uuids s of
        [] \<Rightarrow> (Inl ErrStore, s)
      | u # us \<Rightarrow> (Inr u, s\<lparr>uuids := us\<rparr>))"

text \<open>\<open>ORDER BY\<close> on a signed column: a stable sort on the signed value.\<close>

definition orderBy :: "('a \<Rightarrow> int64) \<Rightarrow> 'a list \<Rightarrow> 'a list" where
  "orderBy col rows = sort_key (\<lambda>row. sint (col row)) rows"

definition selectGachaItems :: "int64 \<Rightarrow> database \<Rightarrow> GachaItemMaster list" where
  "selectGachaItems gachaID d =
     orderBy GachaItemMaster_ID (filter (\<lambda>item. GachaID item = gachaID) (gacha_item_masters d))"

text \<open>The loop over \<open>gachaMasterList\<close>; \<open>Inl\<close> carries the status code of the early return.\<close>

fun gachaDataLoop ::
  "nat \<Rightarrow> GachaMaster list \<Rightarrow> GachaData list \<Rightarrow> state \<Rightarrow> (nat + GachaData list) \<times> state" where
  "gachaDataLoop db [] gachaDataList s = (Inr gachaDataList, s)"
| "gachaDataLoop db (v # rest) gachaDataList s =
     (case dbSelect db (selectGachaItems (GachaMaster_ID v)) s of
        (Inl e, s1) \<Rightarrow> (Inl 500, s1)
      | (Inr gachaItem, s1) \<Rightarrow>
          if gachaItem = [] then (Inl 404, s1)
          else gachaDataLoop db rest
                 (gachaDataList @ [\<lparr>Gacha = v, GachaItem = gachaItem\<rparr>]) s1)"

text \<open>
  \<open>UPDATE user_one_time_tokens SET deleted_at=? WHERE user_id=? AND deleted_at IS NULL\<close>
  and the \<open>INSERT\<close> of the new token.
\<close>

definition deleteUserTokens :: "int64 \<Rightarrow> int64 \<Rightarrow> database \<Rightarrow> database" where
  "deleteUserTokens userID requestAt d =
     d\<lparr>user_one_time_tokens :=
         map (\<lambda>tk. if UserOneTimeToken_UserID tk = userID \<and> UserOneTimeToken_DeletedAt tk = None
                    then tk\<lparr>UserOneTimeToken_DeletedAt := Some requestAt\<rparr> else tk)
             (user_one_time_tokens d)\<rparr>"

definition insertToken :: "UserOneTimeToken \<Rightarrow> database \<Rightarrow> database" where
  "insertToken tk d = d\<lparr>user_one_time_tokens := user_one_time_tokens d @ [tk]\<rparr>"

text \<open>
  \<open>listGacha\<close> reads the masters, soft-deletes the user's tokens and inserts the new
  token, all through \<open>h.DB\<close>, then mirrors the token in the cache.
\<close>

definition listGacha ::
  "Handler \<Rightarrow> int64 \<Rightarrow> int64 \<Rightarrow> state \<Rightarrow> ListGachaResponse response \<times> state" where
  "listGacha h userID requestAt s =
     (case dbSelect (DB h)
             (\<lambda>d. orderBy DisplayOrder
                     (filter (\<lambda>g. GachaMaster_StartAt g \<le>s requestAt
                                   \<and> requestAt \<le>s GachaMaster_EndAt g) (gacha_masters d))) s of
        (Inl e, s1) \<Rightarrow> (errorResponse 500, s1)
      | (Inr gachaMasterList, s1) \<Rightarrow>
          if gachaMasterList = []
          then (successResponse \<lparr>ListGachaResponse_OneTimeToken = [], Gachas = []\<rparr>, s1)
          else
          (case gachaDataLoop (DB h) gachaMasterList [] s1 of
             (Inl code, s2) \<Rightarrow> (errorResponse code, s2)
           | (Inr gachaDataList, s2) \<Rightarrow>
          (case dbExec (DB h) (deleteUserTokens userID requestAt) s2 of
             (Some e, s3) \<Rightarrow> (errorResponse 500, s3)
           | (None, s3) \<Rightarrow>
          (case generateID s3 of
             (tID, s4) \<Rightarrow>
          (case generateUUID s4 of
             (Inl e, s5) \<Rightarrow> (errorResponse 500, s5)
           | (Inr tk, s5) \<Rightarrow>
          (let token = \<lparr>UserOneTimeToken_ID = tID, UserOneTimeToken_UserID = userID, Token = tk,
                        UserOneTimeToken_TokenType = 1,
                        UserOneTimeToken_ExpiredAt = requestAt + 600,
                        UserOneTimeToken_CreatedAt = requestAt,
                        UserOneTimeToken_UpdatedAt = requestAt,
                        UserOneTimeToken_DeletedAt = None\<rparr> in
           case dbExec (DB h) (insertToken token) s5 of
             (Some e, s6) \<Rightarrow> (errorResponse 500, s6)
           | (None, s6) \<Rightarrow>
               (successResponse \<lparr>ListGachaResponse_OneTimeToken = tk, Gachas = gachaDataList\<rparr>,
                s6\<lparr>TokenCache := SetToken (TokenCache s6) tk userID 1 (requestAt + 600)
                                    requestAt\<rparr>)))))))"

section \<open>\<open>drawGacha\<close>\<close>

text \<open>The presents built from the lottery result, one \<open>generateID\<close> each.\<close>

fun gachaPresents ::
  "GachaItemMaster list \<Rightarrow> int64 \<Rightarrow> int64 \<Rightarrow> string \<Rightarrow> UserPresent list \<Rightarrow> state
    \<Rightarrow> UserPresent list \<times> state" where
  "gachaPresents [] userID requestAt presentMessage presents s = (presents, s)"
| "gachaPresents (v # rest) userID requestAt presentMessage presents s =
     (case generateID s of
        (pID, s1) \<Rightarrow>
          gachaPresents rest userID requestAt presentMessage
            (presents @
               [\<lparr>UserPresent_ID = pID, UserPresent_UserID = userID, SentAt = requestAt,
                 ItemType = GachaItemMaster_ItemType v, ItemID = GachaItemMaster_ItemID v,
                 Amount = GachaItemMaster_Amount v, PresentMessage = presentMessage,
                 UserPresent_CreatedAt = requestAt, UserPresent_UpdatedAt = requestAt,
                 UserPresent_DeletedAt = None\<rparr>])
            s1)"

text \<open>One \<open>tx.NamedExec\<close> per present.\<close>

fun insertPresents :: "UserPresent list \<Rightarrow> state \<Rightarrow> error option \<times> state" where
  "insertPresents [] s = (None, s)"
| "insertPresents (present # rest) s =
     (case txExec (\<lambda>d. d\<lparr>user_presents := user_presents d @ [present]\<rparr>) s of
        (Some e, s1) \<Rightarrow> (Some e, s1)
      | (None, s1) \<Rightarrow> insertPresents rest s1)"

text \<open>\<open>UPDATE users SET isu_coin=? WHERE id=?\<close>\<close>

definition setCoin :: "int64 \<Rightarrow> int64 \<Rightarrow> database \<Rightarrow> database" where
  "setCoin userID totalCoin d =
     d\<lparr>users := map (\<lambda>u. if User_ID u = userID then u\<lparr>IsuCoin := totalCoin\<rparr> else u) (users d)\<rparr>"

text \<open>The pool and its weight sum: from the cache, else from \<open>h.DB\<close> (and then cached).\<close>

definition loadGachaItems ::
  "Handler \<Rightarrow> int64 \<Rightarrow> state \<Rightarrow> (nat + GachaItemMaster list \<times> int64) \<times> state" where
  "loadGachaItems h gachaID s =
     (case GetGachaItems (Cache s) gachaID of
        Some (gachaItemList, sumW) \<Rightarrow> (Inr (gachaItemList, sumW), s)
      | None \<Rightarrow>
          (case dbSelect (DB h) (selectGachaItems gachaID) s of
             (Inl e, s1) \<Rightarrow> (Inl 500, s1)
           | (Inr gachaItemList, s1) \<Rightarrow>
               if gachaItemList = [] then (Inl 404, s1)
               else (Inr (gachaItemList, sumWeights gachaItemList),
                     s1\<lparr>Cache := SetGachaItems (Cache s1) gachaID gachaItemList\<rparr>)))"

text \<open>The part of \<open>drawGacha\<close> after the balance check.\<close>

definition drawGachaPaid ::
  "Handler \<Rightarrow> nat \<Rightarrow> User \<Rightarrow> int64 \<Rightarrow> int64 \<Rightarrow> int64 \<Rightarrow> int64 \<Rightarrow> state
    \<Rightarrow> UserPresent list response \<times> state" where
  "drawGachaPaid h db user userID gachaID gachaCount requestAt s =
     (case dbGet (DB h)
             (\<lambda>d. filter (\<lambda>g. GachaMaster_ID g = gachaID \<and> GachaMaster_StartAt g \<le>s requestAt
                               \<and> requestAt \<le>s GachaMaster_EndAt g) (gacha_masters d)) s of
        (Inl e, s1) \<Rightarrow> (errorResponse (if e = ErrNoRows then 404 else 500), s1)
      | (Inr gachaInfo, s1) \<Rightarrow>
     (case loadGachaItems h gachaID s1 of
        (Inl code, s2) \<Rightarrow> (errorResponse code, s2)
      | (Inr (gachaItemList, sumW), s2) \<Rightarrow>
     if sumW = 0 then (errorResponse 500, s2)
     else
     (case drawLoop (nat (sint gachaCount)) gachaItemList sumW [] s2 of
        (Inl e, s3) \<Rightarrow> (errorResponse 500, s3)
      | (Inr result, s3) \<Rightarrow>
     (case Beginx db s3 of
        (Some e, s4) \<Rightarrow> (errorResponse 500, s4)
      | (None, s4) \<Rightarrow>
     (case gachaPresents result userID requestAt (Name gachaInfo) [] s4 of
        (presents, s5) \<Rightarrow>
     (case insertPresents presents s5 of
        (Some e, s6) \<Rightarrow> (errorResponse 500, s6)
      | (None, s6) \<Rightarrow>
     (case txExec (setCoin (User_ID user) (IsuCoin user - gachaCount * 1000)) s6 of
        (Some e, s7) \<Rightarrow> (errorResponse 500, s7)
      | (None, s7) \<Rightarrow>
     (case Commit db s7 of
        (Some e, s8) \<Rightarrow> (errorResponse 500, s8)
      | (None, s8) \<Rightarrow> (successResponse presents, s8)))))))))"

definition drawGacha ::
  "Handler \<Rightarrow> int64 \<Rightarrow> int64 \<Rightarrow> int64 \<Rightarrow> DrawGachaRequest \<Rightarrow> int64 \<Rightarrow> state
    \<Rightarrow> UserPresent list response \<times> state" where
  "drawGacha h userID gachaID gachaCount req requestAt s =
     (if gachaCount \<noteq> 1 \<and> gachaCount \<noteq> 10 then (errorResponse 400, s)
      else
      (case checkOneTimeToken h userID (OneTimeToken req) 1 requestAt s of
         (Some e, s1) \<Rightarrow> (errorResponse (if e = ErrInvalidToken then 400 else 500), s1)
       | (None, s1) \<Rightarrow>
      (case checkViewerID h userID (DrawGachaRequest_ViewerID req) s1 of
         (Some e, s2) \<Rightarrow> (errorResponse (if e = ErrUserDeviceNotFound then 404 else 500), s2)
       | (None, s2) \<Rightarrow>
      (let consumedCoin = gachaCount * 1000 in
       case getDBForUserID h userID of
         Inl e \<Rightarrow> (errorResponse 500, s2)
       | Inr db \<Rightarrow>
      (case dbGet db (\<lambda>d. filter (\<lambda>u. User_ID u = userID) (users d)) s2 of
         (Inl e, s3) \<Rightarrow> (errorResponse (if e = ErrNoRows then 404 else 500), s3)
       | (Inr user, s3) \<Rightarrow>
           if IsuCoin user <s consumedCoin then (errorResponse 409, s3)
           else drawGachaPaid h db user userID gachaID gachaCount requestAt s3)))))"

section \<open>PresentDistributionEngine: \<open>receivePresent\<close>\<close>

text \<open>
  The loop before the batched update: a loaded present with \<open>DeletedAt != nil\<close> ends the
  handler with status 500 (\<open>None\<close> here); otherwise the present is stamped.
\<close>

fun markPresents :: "UserPresent list \<Rightarrow> int64 \<Rightarrow> (UserPresent list \<times> int64 list) option" where
  "markPresents [] requestAt = Some ([], [])"
| "markPresents (p # rest) requestAt =
     (if UserPresent_DeletedAt p \<noteq> None then None
      else case markPresents rest requestAt of
             None \<Rightarrow> None
           | Some (obtainPresent, presentIDs) \<Rightarrow>
               Some (p\<lparr>UserPresent_UpdatedAt := requestAt,
                       UserPresent_DeletedAt := Some requestAt\<rparr> # obtainPresent,
                     UserPresent_ID p # presentIDs))"

text \<open>\<open>SELECT * FROM user_presents WHERE id IN (?) AND deleted_at IS NULL\<close>\<close>

definition selectPresents :: "int64 list \<Rightarrow> database \<Rightarrow> UserPresent list" where
  "selectPresents presentIDs d =
     filter (\<lambda>p. UserPresent_ID p \<in> set presentIDs \<and> UserPresent_DeletedAt p = None)
            (user_presents d)"

text \<open>\<open>UPDATE user_presents SET deleted_at=?, updated_at=? WHERE id IN (?)\<close>\<close>

definition deletePresents :: "int64 list \<Rightarrow> int64 \<Rightarrow> database \<Rightarrow> database" where
  "deletePresents presentIDs requestAt d =
     d\<lparr>user_presents :=
         map (\<lambda>p. if UserPresent_ID p \<in> set presentIDs
                   then p\<lparr>UserPresent_DeletedAt := Some requestAt,
                          UserPresent_UpdatedAt := requestAt\<rparr>
                   else p)
             (user_presents d)\<rparr>"

definition receivePresent ::
  "Handler \<Rightarrow> int64 \<Rightarrow> ReceivePresentRequest \<Rightarrow> int64 \<Rightarrow> state
    \<Rightarrow> UserPresent list response \<times> state" where
  "receivePresent h userID req requestAt s =
     (if PresentIDs req = [] then (errorResponse 422, s)
      else
      (case checkViewerID h userID (ReceivePresentRequest_ViewerID req) s of
         (Some e, s1) \<Rightarrow> (errorResponse (if e = ErrUserDeviceNotFound then 404 else 500), s1)
       | (None, s1) \<Rightarrow>
      (case getDBForUserID h userID of
         Inl e \<Rightarrow> (errorResponse 500, s1)
       | Inr db \<Rightarrow>
      (case dbSelect db (selectPresents (PresentIDs req)) s1 of
         (Inl e, s2) \<Rightarrow> (errorResponse 400, s2)
       | (Inr obtainPresent, s2) \<Rightarrow>
      if obtainPresent = [] then (successResponse [], s2)
      else
      (case Beginx db s2 of
         (Some e, s3) \<Rightarrow> (errorResponse 500, s3)
       | (None, s3) \<Rightarrow>
      (case markPresents obtainPresent requestAt of
         None \<Rightarrow> (errorResponse 500, s3)
       | Some (obtainPresent1, presentIDs) \<Rightarrow>
      (case txExec (deletePresents presentIDs requestAt) s3 of
         (Some e, s4) \<Rightarrow> (errorResponse 500, s4)
       | (None, s4) \<Rightarrow>
      (case obtainItemsBatch obtainPresent1 userID requestAt s4 of
         (Some e, s5) \<Rightarrow>
           (errorResponse (if e = ErrUserNotFound \<or> e = ErrItemNotFound then 404
                           else if e = ErrInvalidItemType then 400 else 500), s5)
       | (None, s5) \<Rightarrow>
      (case Commit db s5 of
         (Some e, s6) \<Rightarrow> (errorResponse 500, s6)
       | (None, s6) \<Rightarrow> (successResponse obtainPresent1, s6))))))))))"


section \<open>The single-item grant \<open>obtainItem\<close>\<close>

text \<open>
  The unbatched sibling of \<open>obtainItemsBatch\<close>, still in the source. It returns the
  granted coins, cards and items; its \<open>switch\<close> ends in \<open>default: return ErrInvalidItemType\<close>.
\<close>

definition selectItemMaster :: "int64 \<Rightarrow> int64 \<Rightarrow> database \<Rightarrow> ItemMaster list" where
  "selectItemMaster itemID itemType d =
     filter (\<lambda>m. ItemMaster_ID m = itemID \<and> ItemMaster_ItemType m = itemType) (item_masters d)"

definition setItemAmount :: "int64 \<Rightarrow> int64 \<Rightarrow> int64 \<Rightarrow> database \<Rightarrow> database" where
  "setItemAmount rowID amount updatedAt d =
     d\<lparr>user_items :=
         map (\<lambda>row. if UserItem_ID row = rowID
                     then row\<lparr>UserItem_Amount := amount, UserItem_UpdatedAt := updatedAt\<rparr>
                     else row)
             (user_items d)\<rparr>"

definition obtainItem ::
  "int64 \<Rightarrow> int64 \<Rightarrow> int64 \<Rightarrow> int64 \<Rightarrow> int64 \<Rightarrow> state
    \<Rightarrow> (error + int64 list \<times> UserCard list \<times> UserItem list) \<times> state" where
  "obtainItem userID itemID itemType obtainAmount requestAt s =
     (if itemType = 1 then
        (case txGet (\<lambda>d. filter (\<lambda>u. User_ID u = userID) (users d)) s of
           (Inl e, s1) \<Rightarrow> (Inl (if e = ErrNoRows then ErrUserNotFound else e), s1)
         | (Inr user, s1) \<Rightarrow>
             (case txExec (setCoin (User_ID user) (IsuCoin user + obtainAmount)) s1 of
                (Some e, s2) \<Rightarrow> (Inl e, s2)
              | (None, s2) \<Rightarrow> (Inr ([obtainAmount], [], []), s2)))
      else if itemType = 2 then
        (case txGet (selectItemMaster itemID itemType) s of
           (Inl e, s1) \<Rightarrow> (Inl (if e = ErrNoRows then ErrItemNotFound else e), s1)
         | (Inr item, s1) \<Rightarrow>
             (case generateID s1 of
                (cID, s2) \<Rightarrow>
                  (case AmountPerSec item of
                     None \<Rightarrow> (Inl Panic, s2)
                   | Some amountPerSec \<Rightarrow>
                       (let card = \<lparr>UserCard_ID = cID, UserCard_UserID = userID,
                                     CardID = ItemMaster_ID item,
                                     UserCard_AmountPerSec = amountPerSec, Level = 1, TotalExp = 0,
                                     UserCard_CreatedAt = requestAt,
                                     UserCard_UpdatedAt = requestAt\<rparr> in
                        case txExec (insertCards [card]) s2 of
                          (Some e, s3) \<Rightarrow> (Inl e, s3)
                        | (None, s3) \<Rightarrow> (Inr ([], [card], []), s3)))))
      else if itemType = 3 \<or> itemType = 4 then
        (case txGet (selectItemMaster itemID itemType) s of
           (Inl e, s1) \<Rightarrow> (Inl (if e = ErrNoRows then ErrItemNotFound else e), s1)
         | (Inr item, s1) \<Rightarrow>
             (case txGet (\<lambda>d. filter (\<lambda>row. UserItem_UserID row = userID
                                            \<and> UserItem_ItemID row = ItemMaster_ID item)
                                     (user_items d)) s1 of
                (Inl e, s2) \<Rightarrow>
                  if e \<noteq> ErrNoRows then (Inl e, s2)
                  else
                    (case generateID s2 of
                       (uitemID, s3) \<Rightarrow>
                         (let uitem = \<lparr>UserItem_ID = uitemID, UserItem_UserID = userID,
                                        UserItem_ItemType = ItemMaster_ItemType item,
                                        UserItem_ItemID = ItemMaster_ID item,
                                        UserItem_Amount = obtainAmount,
                                        UserItem_CreatedAt = requestAt,
                                        UserItem_UpdatedAt = requestAt\<rparr> in
                          case txExec (insertUserItems [uitem]) s3 of
                            (Some e', s4) \<Rightarrow> (Inl e', s4)
                          | (None, s4) \<Rightarrow> (Inr ([], [], [uitem]), s4)))
              | (Inr uitem0, s2) \<Rightarrow>
                  (let uitem = uitem0\<lparr>UserItem_Amount := UserItem_Amount uitem0 + obtainAmount,
                                       UserItem_UpdatedAt := requestAt\<rparr> in
                   case txExec (setItemAmount (UserItem_ID uitem) (UserItem_Amount uitem)
                                  (UserItem_UpdatedAt uitem)) s2 of
                     (Some e, s3) \<Rightarrow> (Inl e, s3)
                   | (None, s3) \<Rightarrow> (Inr ([], [], [uitem]), s3))))
      else (Inl ErrInvalidItemType, s))"

section \<open>LoginBonusEngine: \<open>obtainLoginBonus\<close>\<close>

text \<open>
  The block "bonus progress update" of the loop body: \<open>LastRewardSequence++\<close> below the
  column count, else wrap to 1 with \<open>LoopCount += 1\<close> for a looped bonus, else
  \<open>continue\<close> (\<open>None\<close>).
\<close>

definition advanceBonus :: "LoginBonusMaster \<Rightarrow> UserLoginBonus \<Rightarrow> UserLoginBonus option" where
  "advanceBonus bonus userBonus =
     (if LastRewardSequence userBonus <s ColumnCount bonus
      then Some (userBonus\<lparr>LastRewardSequence := LastRewardSequence userBonus + 1\<rparr>)
      else if Looped bonus
      then Some (userBonus\<lparr>LoopCount := LoopCount userBonus + 1, LastRewardSequence := 1\<rparr>)
      else None)"

definition insertUserLoginBonus :: "UserLoginBonus \<Rightarrow> database \<Rightarrow> database" where
  "insertUserLoginBonus userBonus d =
     d\<lparr>user_login_bonuses := user_login_bonuses d @ [userBonus]\<rparr>"

text \<open>
  \<open>UPDATE user_login_bonuses SET last_reward_sequence=?, loop_count=?, updated_at=? WHERE id=?\<close>
\<close>

definition updateUserLoginBonus :: "UserLoginBonus \<Rightarrow> database \<Rightarrow> database" where
  "updateUserLoginBonus userBonus d =
     d\<lparr>user_login_bonuses :=
         map (\<lambda>row. if UserLoginBonus_ID row = UserLoginBonus_ID userBonus
                     then row\<lparr>LastRewardSequence := LastRewardSequence userBonus,
                              LoopCount := LoopCount userBonus,
                              UserLoginBonus_UpdatedAt := UserLoginBonus_UpdatedAt userBonus\<rparr>
                     else row)
             (user_login_bonuses d)\<rparr>"

text \<open>
  The loop over the active bonuses. \<open>existingMap\<close> holds pointers in the source: the
  progress written to an existing \<open>userBonus\<close> is visible through the map, so the model
  stores the changed struct back.
\<close>

fun bonusLoop ::
  "LoginBonusMaster list \<Rightarrow> (int64 \<rightharpoonup> UserLoginBonus) \<Rightarrow> int64 \<Rightarrow> int64
    \<Rightarrow> UserLoginBonus list \<Rightarrow> LoginBonusRewardMaster list \<Rightarrow> state
    \<Rightarrow> (error + UserLoginBonus list \<times> LoginBonusRewardMaster list) \<times> state" where
  "bonusLoop [] existingMap userID requestAt sendLoginBonuses rewardItems s =
     (Inr (sendLoginBonuses, rewardItems), s)"
| "bonusLoop (bonus # rest) existingMap userID requestAt sendLoginBonuses rewardItems s =
     (case (case existingMap (LoginBonusMaster_ID bonus) of
              Some userBonus \<Rightarrow> (userBonus, False, s)
            | None \<Rightarrow>
                (case generateID s of
                   (ubID, s1) \<Rightarrow>
                     (\<lparr>UserLoginBonus_ID = ubID, UserLoginBonus_UserID = userID,
                       LoginBonusID = LoginBonusMaster_ID bonus, LastRewardSequence = 0,
                       LoopCount = 1, UserLoginBonus_CreatedAt = requestAt,
                       UserLoginBonus_UpdatedAt = requestAt\<rparr>, True, s1))) of
        (userBonus0, initBonus, s1) \<Rightarrow>
          (case advanceBonus bonus userBonus0 of
             None \<Rightarrow> bonusLoop rest existingMap userID requestAt sendLoginBonuses rewardItems s1
           | Some userBonus1 \<Rightarrow>
               (let userBonus = userBonus1\<lparr>UserLoginBonus_UpdatedAt := requestAt\<rparr>;
                    existingMap1 = (if initBonus then existingMap
                                    else existingMap(LoginBonusMaster_ID bonus \<mapsto> userBonus));
                    rewardItems1 = rewardItems @
                      [\<lparr>LoginBonusRewardMaster_LoginBonusID = LoginBonusMaster_ID bonus,
                        RewardSequence = LastRewardSequence userBonus,
                        LoginBonusRewardMaster_ItemType = 0, LoginBonusRewardMaster_ItemID = 0,
                        LoginBonusRewardMaster_Amount = 0\<rparr>]
                in case txExec (if initBonus then insertUserLoginBonus userBonus
                                else updateUserLoginBonus userBonus) s1 of
                     (Some e, s2) \<Rightarrow> (Inl e, s2)
                   | (None, s2) \<Rightarrow>
                       bonusLoop rest existingMap1 userID requestAt
                         (sendLoginBonuses @ [userBonus]) rewardItems1 s2)))"

text \<open>The cache pass over \<open>rewardItems\<close>: \<open>rewardMap\<close> and \<open>missingRewards\<close>.\<close>

fun cachedRewards ::
  "LoginBonusRewardMaster list \<Rightarrow> MasterDataCache
    \<Rightarrow> (int64 \<times> int64 \<rightharpoonup> LoginBonusRewardMaster) \<Rightarrow> LoginBonusRewardMaster list
    \<Rightarrow> (int64 \<times> int64 \<rightharpoonup> LoginBonusRewardMaster) \<times> LoginBonusRewardMaster list" where
  "cachedRewards [] c rewardMap missingRewards = (rewardMap, missingRewards)"
| "cachedRewards (reward # rest) c rewardMap missingRewards =
     (case GetLoginBonusReward c (LoginBonusRewardMaster_LoginBonusID reward)
             (RewardSequence reward) of
        Some cachedReward \<Rightarrow>
          cachedRewards rest c
            (rewardMap((LoginBonusRewardMaster_LoginBonusID reward, RewardSequence reward)
                         \<mapsto> cachedReward))
            missingRewards
      | None \<Rightarrow> cachedRewards rest c rewardMap (missingRewards @ [reward]))"

fun storeRewards ::
  "LoginBonusRewardMaster list \<Rightarrow> MasterDataCache
    \<Rightarrow> (int64 \<times> int64 \<rightharpoonup> LoginBonusRewardMaster)
    \<Rightarrow> MasterDataCache \<times> (int64 \<times> int64 \<rightharpoonup> LoginBonusRewardMaster)" where
  "storeRewards [] c rewardMap = (c, rewardMap)"
| "storeRewards (reward # rest) c rewardMap =
     storeRewards rest (SetLoginBonusReward c reward)
       (rewardMap((LoginBonusRewardMaster_LoginBonusID reward, RewardSequence reward)
                    \<mapsto> reward))"

text \<open>
  \<open>SELECT * FROM login_bonus_reward_masters WHERE (login_bonus_id=? AND reward_sequence=?)
  OR ...\<close>
\<close>

definition selectRewards ::
  "LoginBonusRewardMaster list \<Rightarrow> database \<Rightarrow> LoginBonusRewardMaster list" where
  "selectRewards missingRewards d =
     filter (\<lambda>row. (LoginBonusRewardMaster_LoginBonusID row, RewardSequence row)
                     \<in> set (map (\<lambda>reward. (LoginBonusRewardMaster_LoginBonusID reward,
                                            RewardSequence reward)) missingRewards))
            (login_bonus_reward_masters d)"

text \<open>The presents handed to \<open>obtainItemsBatch\<close>: type, id and amount set, the rest zero.\<close>

fun rewardPresents ::
  "UserLoginBonus list \<Rightarrow> (int64 \<times> int64 \<rightharpoonup> LoginBonusRewardMaster) \<Rightarrow> UserPresent list
    \<Rightarrow> error + UserPresent list" where
  "rewardPresents [] rewardMap presents = Inr presents"
| "rewardPresents (userBonus # rest) rewardMap presents =
     (case rewardMap (LoginBonusID userBonus, LastRewardSequence userBonus) of
        None \<Rightarrow> Inl ErrLoginBonusRewardNotFound
      | Some rewardItem \<Rightarrow>
          rewardPresents rest rewardMap
            (presents @
               [\<lparr>UserPresent_ID = 0, UserPresent_UserID = 0, SentAt = 0,
                 ItemType = LoginBonusRewardMaster_ItemType rewardItem,
                 ItemID = LoginBonusRewardMaster_ItemID rewardItem,
                 Amount = LoginBonusRewardMaster_Amount rewardItem, PresentMessage = [],
                 UserPresent_CreatedAt = 0, UserPresent_UpdatedAt = 0,
                 UserPresent_DeletedAt = None\<rparr>]))"

definition existingBonusMapOf :: "UserLoginBonus list \<Rightarrow> (int64 \<rightharpoonup> UserLoginBonus)" where
  "existingBonusMapOf existingBonuses =
     foldl (\<lambda>m bonus. m(LoginBonusID bonus \<mapsto> bonus)) Map.empty existingBonuses"

definition grantRewards ::
  "UserLoginBonus list \<Rightarrow> LoginBonusRewardMaster list \<Rightarrow> int64 \<Rightarrow> int64 \<Rightarrow> state
    \<Rightarrow> error option \<times> state" where
  "grantRewards sendLoginBonuses rewardItems userID requestAt s =
     (if rewardItems = [] then (None, s)
      else case cachedRewards rewardItems (Cache s) Map.empty [] of
        (rewardMap, missingRewards) \<Rightarrow>
          (case (if missingRewards = [] then (Inr rewardMap, s)
                 else case txSelect (selectRewards missingRewards) s of
                        (Inl e, s1) \<Rightarrow> (Inl e, s1)
                      | (Inr actualRewards, s1) \<Rightarrow>
                          (case storeRewards actualRewards (Cache s1) rewardMap of
                             (c, rewardMap1) \<Rightarrow> (Inr rewardMap1, s1\<lparr>Cache := c\<rparr>))) of
             (Inl e, s1) \<Rightarrow> (Some e, s1)
           | (Inr rewardMap1, s1) \<Rightarrow>
               (case rewardPresents sendLoginBonuses rewardMap1 [] of
                  Inl e \<Rightarrow> (Some e, s1)
                | Inr presents \<Rightarrow>
                    if presents = [] then (None, s1)
                    else obtainItemsBatch presents userID requestAt s1)))"

definition obtainLoginBonus ::
  "int64 \<Rightarrow> int64 \<Rightarrow> state \<Rightarrow> (error + UserLoginBonus list) \<times> state" where
  "obtainLoginBonus userID requestAt s =
     (case txSelect (\<lambda>d. filter (\<lambda>b. LoginBonusMaster_StartAt b \<le>s requestAt
                                    \<and> requestAt \<le>s LoginBonusMaster_EndAt b)
                            (login_bonus_masters d)) s of
        (Inl e, s1) \<Rightarrow> (Inl e, s1)
      | (Inr loginBonuses, s1) \<Rightarrow>
          if loginBonuses = [] then (Inr [], s1)
          else
          (let bonusIDs = map LoginBonusMaster_ID loginBonuses in
           case txSelect (\<lambda>d. filter (\<lambda>row. UserLoginBonus_UserID row = userID
                                            \<and> LoginBonusID row \<in> set bonusIDs)
                                  (user_login_bonuses d)) s1 of
             (Inl e, s2) \<Rightarrow> (Inl e, s2)
           | (Inr existingBonuses, s2) \<Rightarrow>
               (case bonusLoop loginBonuses (existingBonusMapOf existingBonuses) userID requestAt
                       [] [] s2 of
                  (Inl e, s3) \<Rightarrow> (Inl e, s3)
                | (Inr (sendLoginBonuses, rewardItems), s3) \<Rightarrow>
                    (case grantRewards sendLoginBonuses rewardItems userID requestAt s3 of
                       (Some e, s4) \<Rightarrow> (Inl e, s4)
                     | (None, s4) \<Rightarrow> (Inr sendLoginBonuses, s4)))))"

section \<open>Example inputs\<close>

definition emptyDB :: database where
  "emptyDB = \<lparr>users = [], user_devices = [], user_cards = [], user_items = [],
     user_login_bonuses = [], user_presents = [], user_one_time_tokens = [],
     gacha_masters = [], gacha_item_masters = [], item_masters = [],
     login_bonus_masters = [], login_bonus_reward_masters = []\<rparr>"

definition emptyCache :: MasterDataCache where
  "emptyCache = \<lparr>gachaItems = Map.empty, gachaWeightSums = Map.empty,
     loginBonusRewards = Map.empty, itemMasters = Map.empty\<rparr>"

text \<open>The pool of the specification's example: two items of weight 1 and 3.\<close>

definition examplePool :: "GachaItemMaster list" where
  "examplePool =
     [\<lparr>GachaItemMaster_ID = 1, GachaID = 37, GachaItemMaster_ItemType = 1,
       GachaItemMaster_ItemID = 1, GachaItemMaster_Amount = 100, Weight = 1\<rparr>,
      \<lparr>GachaItemMaster_ID = 2, GachaID = 37, GachaItemMaster_ItemType = 3,
       GachaItemMaster_ItemID = 7, GachaItemMaster_Amount = 2, Weight = 3\<rparr>]"

text \<open>A state with empty servers and caches whose every random sample is \<open>2\<close>.\<close>

definition exampleState :: state where
  "exampleState = \<lparr>servers = (\<lambda>_. emptyDB), txData = emptyDB, Cache = emptyCache, TokenCache = Map.empty,
     nextID = 1000, uuids = [], faults = [], rands = (\<lambda>_. 2), randPos = 0\<rparr>"

section \<open>Properties of the shard router\<close>

lemma sint_shift_nonneg: "0 \<le>s (u::int64) \<Longrightarrow> 0 \<le> sint (signed_drop_bit 23 u)"
  by (simp add: sint_signed_drop_bit_eq word_sle_eq)

lemma smod_range: "0 \<le> (k::int) \<Longrightarrow> 0 < n \<Longrightarrow> 0 \<le> k smod int n \<and> k smod int n < int n"
  by (simp add: signed_modulo_int_def sgn_if)

lemma shardIndex_range:
  assumes "0 \<le>s userID" and "1 \<le> n"
  shows "0 \<le> shardIndex userID n \<and> shardIndex userID n < int n"
  using smod_range [OF sint_shift_nonneg [OF assms(1)], of n] assms(2)
  by (simp add: shardIndex_def)

text \<open>
  C7. For a non-negative user id and at least one shard, \<open>getDBForUserID\<close> returns the
  handle at an index in \<open>[0, N)\<close>, namely \<open>(userID >> 23) % N\<close>. The result is a function
  of the handle list and the user id alone (no state is read or written, so the same
  user always gets the same partition), and with \<open>N = 1\<close> every user id, negative ones
  included, gets the single partition.
\<close>

theorem getDBForUserID_partition:
  assumes "0 \<le>s userID" and "1 \<le> length (DBs h)"
  shows "(\<exists>i<length (DBs h). shardIndex userID (length (DBs h)) = int i
            \<and> getDBForUserID h userID = Inr (DBs h ! i))
       \<and> (\<forall>h'. DBs h' = DBs h \<longrightarrow> getDBForUserID h' userID = getDBForUserID h userID)
       \<and> (length (DBs h) = 1 \<longrightarrow> (\<forall>u. getDBForUserID h u = Inr (DBs h ! 0)))"
proof (intro conjI)
  from assms(2) have ne: "length (DBs h) \<noteq> 0" by (cases "DBs h") simp_all
  from shardIndex_range [OF assms]
  have r: "0 \<le> shardIndex userID (length (DBs h))"
          "shardIndex userID (length (DBs h)) < int (length (DBs h))" by simp_all
  let ?i = "nat (shardIndex userID (length (DBs h)))"
  have "?i < length (DBs h)" using r by simp
  moreover have "shardIndex userID (length (DBs h)) = int ?i" using r by simp
  moreover have "getDBForUserID h userID = Inr (DBs h ! ?i)"
    unfolding getDBForUserID_def Let_def using r ne by simp
  ultimately show "\<exists>i<length (DBs h). shardIndex userID (length (DBs h)) = int i
            \<and> getDBForUserID h userID = Inr (DBs h ! i)" by blast
next
  from assms(2) have "DBs h \<noteq> []" by (cases "DBs h") simp_all
  then show "\<forall>h'. DBs h' = DBs h \<longrightarrow> getDBForUserID h' userID = getDBForUserID h userID"
    by (auto simp: getDBForUserID_def Let_def)
next
  show "length (DBs h) = 1 \<longrightarrow> (\<forall>u. getDBForUserID h u = Inr (DBs h ! 0))"
    by (simp add: getDBForUserID_def shardIndex_def signed_modulo_int_def)
qed

text \<open>
  The user id \<open>5 * 2^23 + 3\<close> on three shards goes to shard \<open>5 % 3 = 2\<close>; on one shard even
  the user id \<open>-5\<close> goes to the single partition.
\<close>

theorem getDBForUserID_partition_witness:
  "(\<exists>i<length (DBs \<lparr>DBs = [0, 1, 2], DB = 0\<rparr>).
       shardIndex 41943043 (length (DBs \<lparr>DBs = [0, 1, 2], DB = 0\<rparr>)) = int i
     \<and> getDBForUserID \<lparr>DBs = [0, 1, 2], DB = 0\<rparr> 41943043 = Inr (DBs \<lparr>DBs = [0, 1, 2], DB = 0\<rparr> ! i))
   \<and> getDBForUserID \<lparr>DBs = [0, 1, 2], DB = 0\<rparr> 41943043 = Inr 2
   \<and> getDBForUserID \<lparr>DBs = [7], DB = 0\<rparr> (- 5) = Inr 7"
proof -
  have a: "0 \<le>s (41943043 :: int64)" by (simp add: word_sle_eq)
  have b: "1 \<le> length (DBs \<lparr>DBs = [0, 1, 2], DB = 0\<rparr>)" by simp
  have c: "0 \<le>s (0 :: int64)" by simp
  have d: "1 \<le> length (DBs \<lparr>DBs = [7], DB = 0\<rparr>)" by simp
  have e: "getDBForUserID \<lparr>DBs = [0, 1, 2], DB = 0\<rparr> 41943043 = Inr 2"
    by (simp add: getDBForUserID_def shardIndex_def sint_signed_drop_bit_eq signed_modulo_int_def)
  have f: "getDBForUserID \<lparr>DBs = [7], DB = 0\<rparr> (- 5) = Inr 7"
    using getDBForUserID_partition [OF c d] by simp
  from getDBForUserID_partition [OF a b] e f
  show ?thesis by blast
qed

section \<open>Properties of the lottery\<close>

lemma pick_None_iff:
  "pick vs b r = None \<longleftrightarrow>
     (\<forall>i<length vs. \<not> r <s foldl (\<lambda>acc item. acc + Weight item) b (take (Suc i) vs))"
proof (induction vs arbitrary: b)
  case Nil
  then show ?case by simp
next
  case (Cons v vs)
  have "(\<forall>i<Suc (length vs). P i) \<longleftrightarrow> P 0 \<and> (\<forall>i<length vs. P (Suc i))" for P
    by (metis less_Suc_eq_0_disj Suc_less_eq zero_less_Suc)
  then show ?case
    by (simp add: Let_def Cons.IH)
qed

lemma pick_Some_first:
  "pick vs b r = Some v \<Longrightarrow>
     \<exists>i<length vs. v = vs ! i
        \<and> r <s foldl (\<lambda>acc item. acc + Weight item) b (take (Suc i) vs)
        \<and> (\<forall>j<i. \<not> r <s foldl (\<lambda>acc item. acc + Weight item) b (take (Suc j) vs))"
proof (induction vs arbitrary: b)
  case Nil
  then show ?case by simp
next
  case (Cons x vs)
  show ?case
  proof (cases "r <s b + Weight x")
    case True
    with Cons.prems have "v = x" by (simp add: Let_def)
    with True show ?thesis by (intro exI [of _ 0]) simp
  next
    case False
    with Cons.prems have "pick vs (b + Weight x) r = Some v" by (simp add: Let_def)
    from Cons.IH [OF this] obtain i where i: "i < length vs" "v = vs ! i"
      "r <s foldl (\<lambda>acc item. acc + Weight item) (b + Weight x) (take (Suc i) vs)"
      "\<forall>j<i. \<not> r <s foldl (\<lambda>acc item. acc + Weight item) (b + Weight x) (take (Suc j) vs)"
      by blast
    show ?thesis
    proof (intro exI [of _ "Suc i"] conjI allI impI)
      fix j assume "j < Suc i"
      then show "\<not> r <s foldl (\<lambda>acc item. acc + Weight item) b (take (Suc j) (x # vs))"
        using False i(4) by (cases j) simp_all
    qed (use i in simp_all)
  qed
qed

text \<open>The last boundary is the weight sum, so a sample below the sum always selects.\<close>

lemma pick_total:
  assumes "r <s sumWeights vs" and "0 \<le>s r"
  shows "\<exists>v. pick vs 0 r = Some v"
proof (cases vs rule: rev_cases)
  case Nil
  with assms show ?thesis by (simp add: sumWeights_def word_sless_alt word_sle_eq)
next
  case (snoc ys y)
  show ?thesis
  proof (rule ccontr)
    assume "\<nexists>v. pick vs 0 r = Some v"
    then have "pick vs 0 r = None" by simp
    then have all: "\<forall>i<length vs. \<not> r <s foldl (\<lambda>acc item. acc + Weight item) 0 (take (Suc i) vs)"
      by (simp only: pick_None_iff)
    have "length ys < length vs" and "take (Suc (length ys)) vs = vs"
      using snoc by simp_all
    with all have "\<not> r <s foldl (\<lambda>acc item. acc + Weight item) 0 vs" by metis
    with assms(1) show False by (simp add: sumWeights_def)
  qed
qed

lemma Int63n_ok:
  "0 <s n \<Longrightarrow> Int63n n s = (Inr (rands s (randPos s)), s\<lparr>randPos := Suc (randPos s)\<rparr>)"
  by (simp add: Int63n_def word_sle_eq word_sless_alt)

lemma drawLoop_ok:
  assumes "0 <s sumWeights vs"
    and "\<forall>k. 0 \<le>s rands s k \<and> rands s k <s sumWeights vs"
  shows "\<exists>res. drawLoop n vs (sumWeights vs) acc s = (Inr (acc @ res), s\<lparr>randPos := randPos s + n\<rparr>)
           \<and> length res = n
           \<and> (\<forall>k<n. pick vs 0 (rands s (randPos s + k)) = Some (res ! k))"
  using assms(2)
proof (induction n arbitrary: acc s)
  case 0
  then show ?case by simp
next
  case (Suc n)
  let ?r = "rands s (randPos s)"
  let ?s1 = "s\<lparr>randPos := Suc (randPos s)\<rparr>"
  from Suc.prems have "r <s sumWeights vs" "0 \<le>s r" if "r = ?r" for r using that by simp_all
  from pick_total [OF this] obtain v where v: "pick vs 0 ?r = Some v" by blast
  have prem1: "\<forall>k. 0 \<le>s rands ?s1 k \<and> rands ?s1 k <s sumWeights vs" using Suc.prems by simp
  from Suc.IH [OF prem1, of "acc @ [v]"] obtain res where res:
    "drawLoop n vs (sumWeights vs) (acc @ [v]) ?s1
       = (Inr ((acc @ [v]) @ res), ?s1\<lparr>randPos := randPos ?s1 + n\<rparr>)"
    "length res = n" "\<forall>k<n. pick vs 0 (rands ?s1 (randPos ?s1 + k)) = Some (res ! k)" by blast
  show ?case
  proof (intro exI [of _ "v # res"] conjI allI impI)
    show "drawLoop (Suc n) vs (sumWeights vs) acc s
            = (Inr (acc @ v # res), s\<lparr>randPos := randPos s + Suc n\<rparr>)"
      using res(1) v by (simp add: Int63n_ok [OF assms(1)])
    show "length (v # res) = Suc n" using res(2) by simp
    fix k assume "k < Suc n"
    then show "pick vs 0 (rands s (randPos s + k)) = Some ((v # res) ! k)"
      using v res(3) by (cases k) simp_all
  qed
qed

text \<open>
  C6. For a pool whose weight sum is positive and samples in \<open>[0, sumWeights)\<close>, the draw
  loop returns exactly \<open>n\<close> items (for every \<open>n\<close>, so for the counts 1 and 10 the handler
  admits), and the item of draw \<open>k\<close> is the first one in catalog order whose running
  boundary strictly exceeds the sample of that draw.
\<close>

theorem drawLoop_first_exceeding:
  assumes "0 <s sumWeights gachaItemList"
    and "\<forall>k. 0 \<le>s rands s k \<and> rands s k <s sumWeights gachaItemList"
  shows "\<exists>result s'.
           drawLoop n gachaItemList (sumWeights gachaItemList) [] s = (Inr result, s')
         \<and> length result = n
         \<and> (\<forall>k<n. \<exists>i<length gachaItemList.
                result ! k = gachaItemList ! i
              \<and> rands s (randPos s + k) <s boundaryAfter gachaItemList i
              \<and> (\<forall>j<i. \<not> rands s (randPos s + k) <s boundaryAfter gachaItemList j))"
proof -
  from drawLoop_ok [OF assms, of n "[]"] obtain res where res:
    "drawLoop n gachaItemList (sumWeights gachaItemList) [] s
       = (Inr res, s\<lparr>randPos := randPos s + n\<rparr>)"
    "length res = n"
    "\<forall>k<n. pick gachaItemList 0 (rands s (randPos s + k)) = Some (res ! k)"
    by auto
  have "\<exists>i<length gachaItemList.
                res ! k = gachaItemList ! i
              \<and> rands s (randPos s + k) <s boundaryAfter gachaItemList i
              \<and> (\<forall>j<i. \<not> rands s (randPos s + k) <s boundaryAfter gachaItemList j)"
    if "k < n" for k
    using pick_Some_first [of gachaItemList 0 "rands s (randPos s + k)" "res ! k"] res(3) that
    by (simp add: boundaryAfter_def sumWeights_def)
  with res(1,2) show ?thesis by blast
qed

text \<open>
  On the pool with weights 1 and 3 and the sample 2, ten draws give ten items, each the
  second item of the pool (boundaries 1 and 4).
\<close>

theorem drawLoop_first_exceeding_witness:
  "0 <s sumWeights examplePool
   \<and> (\<forall>k. 0 \<le>s rands exampleState k \<and> rands exampleState k <s sumWeights examplePool)
   \<and> (\<exists>result s'.
           drawLoop 10 examplePool (sumWeights examplePool) [] exampleState = (Inr result, s')
         \<and> length result = 10
         \<and> (\<forall>k<10. \<exists>i<length examplePool.
                result ! k = examplePool ! i
              \<and> rands exampleState (randPos exampleState + k) <s boundaryAfter examplePool i
              \<and> (\<forall>j<i. \<not> rands exampleState (randPos exampleState + k)
                             <s boundaryAfter examplePool j)))"
proof -
  have a: "0 <s sumWeights examplePool"
    by (simp add: sumWeights_def examplePool_def word_sless_alt)
  have b: "\<forall>k. 0 \<le>s rands exampleState k \<and> rands exampleState k <s sumWeights examplePool"
    by (simp add: sumWeights_def examplePool_def exampleState_def word_sless_alt word_sle_eq)
  from a b drawLoop_first_exceeding [OF a b, of 10] show ?thesis by blast
qed

end
